theory Spec2Isabelle
  imports Main "HOL-Library.Word"
begin

section \<open>The machine seen by the system-call handlers\<close>

text \<open>
  The handlers of \<^verbatim>\<open>lib/libriscv/system_calls.cpp\<close> are templates over the address
  width \<open>W\<close> (instantiated at 4 and 8 bytes). An address of the guest is a machine word
  \<open>'w word\<close> whose length is \<open>8 * W\<close>; the records below are polymorphic in the address
  type and are used at \<open>'w word\<close>. Host-side \<^verbatim>\<open>size_t\<close> values are natural numbers
  (for \<open>W \<le> 8\<close> every address fits a \<^verbatim>\<open>size_t\<close>), host-side \<^verbatim>\<open>int\<close> and
  \<^verbatim>\<open>ssize_t\<close> values are integers.
\<close>

type_synonym byte = "8 word"

subsection \<open>Constants of the host headers\<close>

definition EPERM :: int where "EPERM = 1"
definition EBADF :: int where "EBADF = 9"
definition ENOMEM :: int where "ENOMEM = 12"
definition EINVAL :: int where "EINVAL = 22"
definition ENOSYS :: int where "ENOSYS = 38"
definition PATH_MAX :: nat where "PATH_MAX = 4096"

subsection \<open>CPU registers\<close>

record 'a CPU =
  regs :: "nat \<Rightarrow> 'a"

text \<open>Register numbers of the RISC-V calling convention: \<open>a0\<close> is \<open>x10\<close>, \<open>a7\<close> is \<open>x17\<close>
  (the handlers print the system-call number as \<^verbatim>\<open>machine.cpu.reg(17)\<close>).\<close>

definition REG_ARG0 :: nat where "REG_ARG0 = 10"
definition REG_ECALL :: nat where "REG_ECALL = 17"

subsection \<open>Paged memory\<close>

record PageAttributes =
  attr_read :: bool
  attr_write :: bool
  attr_exec :: bool

record Page =
  attr :: PageAttributes
  page_data :: "nat \<Rightarrow> byte"

text \<open>Modelled from the spec: \<^verbatim>\<open>Page::size()\<close> is declared in the library's headers, outside
  \<^verbatim>\<open>system_calls.cpp\<close>;
  the spec recommends 4 KiB pages, and the handlers' comments count 16 gather buffers
  as 64kb.\<close>

definition Page_size :: nat where "Page_size = 4096"

record 'a Memory =
  pages :: "nat \<rightharpoonup> Page"
  heap_address :: 'a
  mmap_address :: 'a

text \<open>A \<^verbatim>\<open>vBuffer\<close> is a host pointer into the data of one guest page together with
  a length. The pointer aliases guest memory, so the model keeps the guest address it
  points at: reading through the buffer reads the page, writing through it updates the
  page.\<close>

record vBuffer =
  ptr :: nat
  len :: nat

definition byte_at :: "'a Memory \<Rightarrow> nat \<Rightarrow> byte" where
  "byte_at mem a =
     (case pages mem (a div Page_size) of
        None \<Rightarrow> 0
      | Some pg \<Rightarrow> page_data pg (a mod Page_size))"

definition buffer_bytes :: "'a Memory \<Rightarrow> vBuffer \<Rightarrow> byte list" where
  "buffer_bytes mem b = map (byte_at mem) [ptr b ..< ptr b + len b]"

definition write_byte :: "'a Memory \<Rightarrow> nat \<Rightarrow> byte \<Rightarrow> 'a Memory" where
  "write_byte mem a v =
     (case pages mem (a div Page_size) of
        None \<Rightarrow> mem
      | Some pg \<Rightarrow>
          mem\<lparr>pages := (pages mem)(a div Page_size \<mapsto>
                 pg\<lparr>page_data := (page_data pg)(a mod Page_size := v)\<rparr>)\<rparr>)"

fun store_bytes :: "'a Memory \<Rightarrow> nat \<Rightarrow> byte list \<Rightarrow> 'a Memory" where
  "store_bytes mem a [] = mem"
| "store_bytes mem a (v # vs) = store_bytes (write_byte mem a v) (Suc a) vs"

definition buffer_fill :: "'a Memory \<Rightarrow> vBuffer \<Rightarrow> byte list \<Rightarrow> 'a Memory" where
  "buffer_fill mem b bytes = store_bytes mem (ptr b) (take (len b) bytes)"

text \<open>The split of the guest range \<open>[a, a + n)\<close> at page boundaries, one slice per page
  touched, by increasing address.\<close>

function page_slices :: "nat \<Rightarrow> nat \<Rightarrow> vBuffer list" where
  "page_slices a n =
     (if n = 0 then []
      else let k = min n (Page_size - a mod Page_size)
           in \<lparr>ptr = a, len = k\<rparr> # page_slices (a + k) (n - k))"
  by pat_completeness auto
termination
  by (relation "measure (\<lambda>(a, n). n)") (auto simp: Page_size_def)

declare page_slices.simps [simp del]

definition page_mapped :: "'a Memory \<Rightarrow> vBuffer \<Rightarrow> bool" where
  "page_mapped mem b = (pages mem (ptr b div Page_size) \<noteq> None)"

definition page_readable :: "'a Memory \<Rightarrow> vBuffer \<Rightarrow> bool" where
  "page_readable mem b =
     (case pages mem (ptr b div Page_size) of
        None \<Rightarrow> False
      | Some pg \<Rightarrow> attr_read (attr pg))"

definition page_writable :: "'a Memory \<Rightarrow> vBuffer \<Rightarrow> bool" where
  "page_writable mem b =
     (case pages mem (ptr b div Page_size) of
        None \<Rightarrow> False
      | Some pg \<Rightarrow> attr_write (attr pg))"

text \<open>Modelled from the spec: \<^verbatim>\<open>Memory::gather_buffers_from_range\<close> is defined outside
  \<^verbatim>\<open>system_calls.cpp\<close>. The spec: it "resolves a guest range into at most \<open>max_slices\<close> host
  slices; may return fewer if the range is shorter; returns 0 if any page in the range
  is unmapped. Slices are ordered by increasing guest address", each slice being "a
  contiguous portion of a single guest page". The returned list stands for the filled
  prefix of the caller's array and its length for the returned count.\<close>

definition gather_buffers_from_range ::
    "nat \<Rightarrow> 'a Memory \<Rightarrow> nat \<Rightarrow> nat \<Rightarrow> vBuffer list" where
  "gather_buffers_from_range max_slices mem addr n =
     (if list_all (page_mapped mem) (page_slices addr n)
      then take max_slices (page_slices addr n)
      else [])"

subsection \<open>Machine exceptions\<close>

datatype exception_tag = UNHANDLED_SYSCALL | PROTECTION_FAULT

datatype machine_exception = MachineException exception_tag

text \<open>Modelled from the spec: the bulk copies \<^verbatim>\<open>memcpy_out\<close>, \<^verbatim>\<open>copy_from_guest\<close> and
  \<^verbatim>\<open>copy_to_guest\<close> are defined outside \<^verbatim>\<open>system_calls.cpp\<close>. They transfer across page
  boundaries as needed; an access to a page that is unmapped or lacks the read (write)
  bit is a page fault, a machine exception. At the call sites of the handlers
  \<^verbatim>\<open>memcpy_out(dst, src, n)\<close> and \<^verbatim>\<open>copy_from_guest(dst, src, n)\<close> read \<open>n\<close> bytes at the
  guest address \<open>src\<close>.\<close>

definition memcpy_out :: "'a Memory \<Rightarrow> nat \<Rightarrow> nat \<Rightarrow> machine_exception + byte list" where
  "memcpy_out mem src n =
     (if list_all (page_readable mem) (page_slices src n)
      then Inr (concat (map (buffer_bytes mem) (page_slices src n)))
      else Inl (MachineException PROTECTION_FAULT))"

definition memcpy_in :: "'a Memory \<Rightarrow> nat \<Rightarrow> byte list \<Rightarrow> machine_exception + 'a Memory" where
  "memcpy_in mem dst bytes =
     (if list_all (page_writable mem) (page_slices dst (length bytes))
      then Inr (store_bytes mem dst bytes)
      else Inl (MachineException PROTECTION_FAULT))"

subsection \<open>File descriptors, host calls and the machine\<close>

text \<open>Modelled from the spec: the class \<^verbatim>\<open>FileDescriptors\<close> is declared outside
  \<^verbatim>\<open>system_calls.cpp\<close>: a mapping from virtual fd to host fd, three optional filter callbacks
  (a null pointer is \<open>None\<close>) taking the machine's user data, and two policy flags.\<close>

record FileDescriptors =
  translation :: "(int \<times> int) list"
  permit_filesystem :: bool
  permit_file_write :: bool
  filter_open :: "(nat \<Rightarrow> byte list \<Rightarrow> bool) option"
  filter_stat :: "(nat \<Rightarrow> byte list \<Rightarrow> bool) option"
  filter_ioctl :: "(nat \<Rightarrow> nat \<Rightarrow> bool) option"

text \<open>Modelled from the spec: \<open>translate(vfd)\<close> gives the host fd and fails with
  \<open>-EBADF\<close>; \<open>assign(host_fd)\<close> gives the smallest free vfd \<open>\<ge> 3\<close>. The spec does not
  describe \<^verbatim>\<open>get\<close>, which the read and write handlers call; it is taken to be the same
  lookup.\<close>

definition translate :: "FileDescriptors \<Rightarrow> int \<Rightarrow> int" where
  "translate fds vfd =
     (case map_of (translation fds) vfd of
        None \<Rightarrow> - EBADF
      | Some real_fd \<Rightarrow> real_fd)"

definition get :: "FileDescriptors \<Rightarrow> int \<Rightarrow> int" where
  "get fds vfd = translate fds vfd"

definition assign :: "FileDescriptors \<Rightarrow> int \<Rightarrow> int \<times> FileDescriptors" where
  "assign fds real_fd =
     (let vfd = (case find (\<lambda>v. map_of (translation fds) v = None)
                        (map (\<lambda>i. 3 + int i) [0 ..< Suc (length (translation fds))]) of
                   None \<Rightarrow> 3 + int (length (translation fds))
                 | Some v \<Rightarrow> v)
      in (vfd, fds\<lparr>translation := (vfd, real_fd) # translation fds\<rparr>))"

text \<open>The host operating system is outside the program. Every call the handlers make to
  it (and to the machine's stdin callback) is appended to a log; what the host answers
  is an arbitrary function of the log so far and of the call.\<close>

datatype host_call =
    Host_read int nat
  | Host_write int "byte list"
  | Host_openat int "byte list" int
  | Host_ioctl int nat "nat list"
  | Host_readlinkat int "byte list" nat
  | Host_statx int "byte list" int nat
  | Machine_stdin nat

record host_reply =
  rc :: int
  errno :: int
  out :: "byte list"

record Host =
  calls :: "host_call list"
  answer :: "host_call list \<Rightarrow> host_call \<Rightarrow> host_reply"

record 'a Machine =
  cpu :: "'a CPU"
  memory :: "'a Memory"
  m_fds :: "FileDescriptors option"
  userdata :: nat
  printed :: "byte list"
  host :: Host

definition host_do :: "host_call \<Rightarrow> 'a Machine \<Rightarrow> host_reply \<times> 'a Machine" where
  "host_do c machine =
     (answer (host machine) (calls (host machine)) c,
      machine\<lparr>host := (host machine)\<lparr>calls := calls (host machine) @ [c]\<rparr>\<rparr>)"

text \<open>Modelled from the spec: the accessors of the machine facade are declared outside
  \<^verbatim>\<open>system_calls.cpp\<close>. \<open>sysarg<T>(i)\<close> reads argument register \<open>a[i]\<close> decoded as \<open>T\<close>;
  \<open>set_result\<close> writes \<open>a0\<close>; \<open>set_result_or_error(rc)\<close> sets \<open>-errno\<close> if \<open>rc < 0\<close>,
  else \<open>rc\<close>; \<open>print\<close> emits bytes to the machine's print sink.\<close>

definition sysarg :: "'w::len word Machine \<Rightarrow> nat \<Rightarrow> 'w word" where
  "sysarg machine i = regs (cpu machine) (REG_ARG0 + i)"

definition sysarg_int :: "'w::len word Machine \<Rightarrow> nat \<Rightarrow> int" where
  "sysarg_int machine i = sint (ucast (sysarg machine i) :: 32 word)"

definition sysarg_uint32 :: "'w::len word Machine \<Rightarrow> nat \<Rightarrow> nat" where
  "sysarg_uint32 machine i = unat (ucast (sysarg machine i) :: 32 word)"

definition sysarg_uint64 :: "'w::len word Machine \<Rightarrow> nat \<Rightarrow> nat" where
  "sysarg_uint64 machine i = unat (ucast (sysarg machine i) :: 64 word)"

definition set_result :: "'w::len word Machine \<Rightarrow> int \<Rightarrow> 'w word Machine" where
  "set_result machine v =
     machine\<lparr>cpu := (cpu machine)\<lparr>regs := (regs (cpu machine))(REG_ARG0 := word_of_int v)\<rparr>\<rparr>"

definition set_result_or_error :: "'w::len word Machine \<Rightarrow> host_reply \<Rightarrow> 'w word Machine" where
  "set_result_or_error machine r =
     (if rc r < 0 then set_result machine (- errno r) else set_result machine (rc r))"

definition print :: "'a Machine \<Rightarrow> byte list \<Rightarrow> 'a Machine" where
  "print machine bytes = machine\<lparr>printed := printed machine @ bytes\<rparr>"

definition result :: "'w::len word Machine \<Rightarrow> 'w word" where
  "result machine = regs (cpu machine) REG_ARG0"

definition copy_from_guest ::
    "'a Machine \<Rightarrow> nat \<Rightarrow> nat \<Rightarrow> machine_exception + byte list" where
  "copy_from_guest machine src n = memcpy_out (memory machine) src n"

definition copy_to_guest ::
    "'a Machine \<Rightarrow> nat \<Rightarrow> byte list \<Rightarrow> machine_exception + 'a Machine" where
  "copy_to_guest machine dst bytes =
     (case memcpy_in (memory machine) dst bytes of
        Inl e \<Rightarrow> Inl e
      | Inr mem \<Rightarrow> Inr (machine\<lparr>memory := mem\<rparr>))"

text \<open>The handlers read a path as \<^verbatim>\<open>PATH_MAX - 1\<close> bytes from the guest into a buffer
  whose last byte is then zeroed, and use it as a C string.\<close>

definition c_string :: "byte list \<Rightarrow> byte list" where
  "c_string bytes = takeWhile (\<lambda>b. b \<noteq> 0) bytes"

definition guest_path :: "'a Machine \<Rightarrow> nat \<Rightarrow> machine_exception + byte list" where
  "guest_path machine g_path =
     (case copy_from_guest machine g_path (PATH_MAX - 1) of
        Inl e \<Rightarrow> Inl e
      | Inr bytes \<Rightarrow> Inr (c_string (bytes @ [0])))"

section \<open>The system-call handlers\<close>

type_synonym 'w syscall_t = "'w word Machine \<Rightarrow> machine_exception + 'w word Machine"

definition syscall_stub_zero :: "'w::len syscall_t" where
  "syscall_stub_zero machine = Inr (set_result machine 0)"

definition syscall_stub_nosys :: "'w::len syscall_t" where
  "syscall_stub_nosys machine = Inr (set_result machine (- ENOSYS))"

definition syscall_ebreak :: "'w::len syscall_t" where
  "syscall_ebreak machine = Inl (MachineException UNHANDLED_SYSCALL)"

text \<open>Modelled from the spec: the dispatch on \<open>ECALL\<close> is defined outside
  \<^verbatim>\<open>system_calls.cpp\<close>. The spec: "extract the syscall number from \<open>a7\<close>, look up the handler, invoke
  it"; "unassigned slots default to a stub that sets the result to \<open>-ENOSYS\<close>". The
  table maps a system-call number to the handler installed for it.\<close>

type_synonym 'w syscall_table = "nat \<rightharpoonup> 'w syscall_t"

definition install_syscall_handler ::
    "'w::len syscall_table \<Rightarrow> nat \<Rightarrow> 'w syscall_t \<Rightarrow> 'w syscall_table" where
  "install_syscall_handler table n handler = table(n \<mapsto> handler)"

definition system_call :: "'w::len syscall_table \<Rightarrow> 'w syscall_t" where
  "system_call table machine =
     (case table (unat (regs (cpu machine) REG_ECALL)) of
        None \<Rightarrow> syscall_stub_nosys machine
      | Some handler \<Rightarrow> handler machine)"

subsection \<open>read, write, writev\<close>

definition stdin_into :: "vBuffer \<Rightarrow> 'a Machine \<Rightarrow> 'a Machine" where
  "stdin_into b machine =
     (let (r, machine) = host_do (Machine_stdin (len b)) machine
      in machine\<lparr>memory := buffer_fill (memory machine) b (out r)\<rparr>)"

definition read_into :: "int \<Rightarrow> vBuffer \<Rightarrow> 'a Machine \<Rightarrow> 'a Machine" where
  "read_into real_fd b machine =
     (let (r, machine) = host_do (Host_read real_fd (len b)) machine
      in machine\<lparr>memory := buffer_fill (memory machine) b (out r)\<rparr>)"

definition syscall_read :: "'w::len syscall_t" where
  "syscall_read machine =
     (let fd = sysarg_int machine 0;
          address = sysarg machine 1;
          n = unat (sysarg machine 2)
      in if fd = 0 then
           (let buffers = gather_buffers_from_range 16 (memory machine) (unat address) n;
                machine = fold stdin_into buffers machine
            in Inr (set_result machine (int n)))
         else
           (case m_fds machine of
              Some fds \<Rightarrow>
                (let real_fd = get fds fd;
                     buffers = gather_buffers_from_range 256 (memory machine) (unat address) n;
                     machine = fold (read_into real_fd) buffers machine
                 in Inr (set_result machine (int n)))
            | None \<Rightarrow> Inr (set_result machine (- EBADF))))"

definition print_buffer :: "vBuffer \<Rightarrow> 'a Machine \<Rightarrow> 'a Machine" where
  "print_buffer b machine = print machine (buffer_bytes (memory machine) b)"

text \<open>The loop of the file branch of \<^verbatim>\<open>syscall_write\<close>: one host write per slice; a
  partial write ends the loop, a failed write ends the handler with the error.\<close>

fun write_buffers ::
    "int \<Rightarrow> vBuffer list \<Rightarrow> nat \<Rightarrow> 'w::len word Machine \<Rightarrow> 'w word Machine" where
  "write_buffers real_fd [] bytes machine = set_result machine (int bytes)"
| "write_buffers real_fd (b # bs) bytes machine =
     (let (r, machine) = host_do (Host_write real_fd (buffer_bytes (memory machine) b)) machine
      in if rc r \<ge> 0 then
           (if nat (rc r) < len b then set_result machine (int (bytes + nat (rc r)))
            else write_buffers real_fd bs (bytes + nat (rc r)) machine)
         else set_result_or_error machine r)"

definition syscall_write :: "'w::len syscall_t" where
  "syscall_write machine =
     (let fd = sysarg_int machine 0;
          address = sysarg machine 1;
          n = unat (sysarg machine 2)
      in if fd = 1 \<or> fd = 2 then
           (let buffers = gather_buffers_from_range 16 (memory machine) (unat address) n;
                machine = fold print_buffer buffers machine
            in Inr (set_result machine (int n)))
         else
           (case m_fds machine of
              Some fds \<Rightarrow>
                if permit_file_write fds then
                  (let real_fd = get fds fd;
                       buffers = gather_buffers_from_range 64 (memory machine) (unat address) n
                   in Inr (write_buffers real_fd buffers 0 machine))
                else Inr (set_result machine (- EBADF))
            | None \<Rightarrow> Inr (set_result machine (- EBADF))))"

text \<open>An entry of the guest's iovec array is two address-sized little-endian fields.\<close>

record 'a guest_iovec =
  iov_base :: 'a
  iov_len :: 'a

definition le_word :: "byte list \<Rightarrow> 'w::len word" where
  "le_word bs = word_of_nat (foldr (\<lambda>b acc. unat b + 256 * acc) bs 0)"

definition decode_iovecs :: "nat \<Rightarrow> nat \<Rightarrow> byte list \<Rightarrow> 'w::len word guest_iovec list" where
  "decode_iovecs W count bytes =
     map (\<lambda>i. \<lparr>iov_base = le_word (take W (drop (2 * W * i) bytes)),
               iov_len = le_word (take W (drop (2 * W * i + W) bytes))\<rparr>) [0 ..< count]"

definition print_iovec ::
    "'w::len word guest_iovec \<Rightarrow> int \<times> 'w word Machine \<Rightarrow> int \<times> 'w word Machine" where
  "print_iovec iov st =
     (let (res, machine) = st;
          src_g = unat (iov_base iov);
          len_g = unat (iov_len iov);
          buffers = gather_buffers_from_range 4 (memory machine) src_g len_g;
          machine = fold print_buffer buffers machine
      in (res + int len_g, machine))"

definition syscall_writev :: "'w::len syscall_t" where
  "syscall_writev machine =
     (let fd = sysarg_int machine 0;
          iov_g = sysarg machine 1;
          count = sysarg_int machine 2
      in if count < 0 \<or> count > 256 then Inr (set_result machine (- EINVAL))
         else if fd = 1 \<or> fd = 2 then
           (let W = size iov_g div 8;
                size = 2 * W * nat count
            in case memcpy_out (memory machine) (unat iov_g) size of
                 Inl e \<Rightarrow> Inl e
               | Inr bytes \<Rightarrow>
                   (let vec = decode_iovecs W (nat count) bytes;
                        (res, machine) = fold print_iovec vec (0, machine)
                    in Inr (set_result machine res)))
         else Inr (set_result machine (- EBADF)))"

subsection \<open>Handlers guarded by a filter\<close>

definition syscall_openat :: "'w::len syscall_t" where
  "syscall_openat machine =
     (let dir_fd = sysarg_int machine 0;
          g_path = sysarg machine 1;
          flags = sysarg_int machine 2
      in case guest_path machine (unat g_path) of
           Inl e \<Rightarrow> Inl e
         | Inr path \<Rightarrow>
             (case m_fds machine of
                None \<Rightarrow> Inr (set_result machine (- EBADF))
              | Some fds \<Rightarrow>
                  if permit_filesystem fds then
                    (if (case filter_open fds of
                           None \<Rightarrow> False
                         | Some f \<Rightarrow> \<not> f (userdata machine) path)
                     then Inr (set_result machine (- EPERM))
                     else
                       (let (r, machine) =
                              host_do (Host_openat (translate fds dir_fd) path flags) machine;
                            real_fd = rc r
                        in if real_fd > 0 then
                             (let (vfd, fds) = assign fds real_fd
                              in Inr (set_result (machine\<lparr>m_fds := Some fds\<rparr>) vfd))
                           else Inr (set_result machine (- errno r))))
                  else Inr (set_result machine (- EBADF))))"

definition syscall_ioctl :: "'w::len syscall_t" where
  "syscall_ioctl machine =
     (let vfd = sysarg_int machine 0;
          req = sysarg_uint64 machine 1;
          arg1 = sysarg machine 2;
          arg2 = sysarg machine 3;
          arg3 = sysarg machine 4;
          arg4 = sysarg machine 5
      in case m_fds machine of
           None \<Rightarrow> Inr (set_result machine (- EBADF))
         | Some fds \<Rightarrow>
             if (case filter_ioctl fds of
                   None \<Rightarrow> False
                 | Some f \<Rightarrow> \<not> f (userdata machine) req)
             then Inr (set_result machine (- EPERM))
             else
               (let real_fd = translate fds vfd;
                    (r, machine) =
                      host_do (Host_ioctl real_fd req
                                 [unat arg1, unat arg2, unat arg3, unat arg4]) machine
                in Inr (set_result_or_error machine r)))"

definition syscall_readlinkat :: "'w::len syscall_t" where
  "syscall_readlinkat machine =
     (let vfd = sysarg_int machine 0;
          g_path = sysarg machine 1;
          g_buf = sysarg machine 2;
          bufsize = unat (sysarg machine 3)
      in case guest_path machine (unat g_path) of
           Inl e \<Rightarrow> Inl e
         | Inr path \<Rightarrow>
             if bufsize > 16384 then Inr (set_result machine (- ENOMEM))
             else
               (case m_fds machine of
                  None \<Rightarrow> Inr (set_result machine (- ENOSYS))
                | Some fds \<Rightarrow>
                    if (case filter_open fds of
                          None \<Rightarrow> False
                        | Some f \<Rightarrow> \<not> f (userdata machine) path)
                    then Inr (set_result machine (- EPERM))
                    else
                      (let real_fd = translate fds vfd;
                           (r, machine) =
                             host_do (Host_readlinkat real_fd path bufsize) machine;
                           res = rc r
                       in if res > 0 then
                            (case copy_to_guest machine (unat g_buf) (take (nat res) (out r)) of
                               Inl e \<Rightarrow> Inl e
                             | Inr machine \<Rightarrow> Inr (set_result_or_error machine r))
                          else Inr (set_result_or_error machine r))))"

definition syscall_statx :: "'w::len syscall_t" where
  "syscall_statx machine =
     (let dir_fd = sysarg_int machine 0;
          g_path = sysarg machine 1;
          flags = sysarg_int machine 2;
          mask = sysarg_uint32 machine 3;
          buffer = sysarg machine 4
      in case guest_path machine (unat g_path) of
           Inl e \<Rightarrow> Inl e
         | Inr path \<Rightarrow>
             (case m_fds machine of
                None \<Rightarrow> Inr (set_result machine (- ENOSYS))
              | Some fds \<Rightarrow>
                  if (case filter_stat fds of
                        None \<Rightarrow> False
                      | Some f \<Rightarrow> \<not> f (userdata machine) path)
                  then Inr (set_result machine (- EPERM))
                  else
                    (let (r, machine) = host_do (Host_statx dir_fd path flags mask) machine;
                         res = rc r
                     in if res = 0 then
                          (case copy_to_guest machine (unat buffer) (take 256 (out r)) of
                             Inl e \<Rightarrow> Inl e
                           | Inr machine \<Rightarrow> Inr (set_result_or_error machine r))
                        else Inr (set_result_or_error machine r))))"

subsection \<open>brk, mmap, mremap\<close>

text \<open>\<^verbatim>\<open>Memory<W>::BRK_MAX\<close> is a compile-time constant declared outside
  \<^verbatim>\<open>system_calls.cpp\<close>; the handlers that use it take it as a parameter.\<close>

definition syscall_brk :: "'w::len word \<Rightarrow> 'w syscall_t" where
  "syscall_brk BRK_MAX machine =
     (let new_end = sysarg machine 0;
          new_end =
            (if new_end > heap_address (memory machine) + BRK_MAX
             then heap_address (memory machine) + BRK_MAX
             else if new_end < heap_address (memory machine)
             then heap_address (memory machine)
             else new_end)
      in Inr (set_result machine (uint new_end)))"

definition set_mmap_address :: "'a Machine \<Rightarrow> 'a \<Rightarrow> 'a Machine" where
  "set_mmap_address machine nextfree =
     machine\<lparr>memory := (memory machine)\<lparr>mmap_address := nextfree\<rparr>\<rparr>"

text \<open>The handler installed for 222. Its last branch walks the pages of the requested
  range with an empty loop body, which has no effect.\<close>

definition syscall_mmap :: "'w::len syscall_t" where
  "syscall_mmap machine =
     (let addr_g = sysarg machine 0;
          length = sysarg machine 1;
          prot = sysarg_int machine 2;
          flags = sysarg_int machine 3
      in if unat addr_g mod Page_size \<noteq> 0 \<or> unat length mod Page_size \<noteq> 0
         then Inr (set_result machine (- 1))
         else
           (let nextfree = mmap_address (memory machine)
            in if addr_g = 0 \<or> addr_g = nextfree then
                 Inr (set_mmap_address (set_result machine (uint nextfree)) (nextfree + length))
               else if addr_g < nextfree then Inr (set_result machine (- 1))
               else Inr (set_result machine (uint addr_g))))"

text \<open>The handler installed for 163.\<close>

definition syscall_mremap :: "'w::len syscall_t" where
  "syscall_mremap machine =
     (let old_addr = sysarg machine 0;
          old_size = sysarg machine 1;
          new_size = sysarg machine 2;
          flags = sysarg_int machine 3;
          nextfree = mmap_address (memory machine)
      in if old_addr + old_size = nextfree then
           Inr (set_result (set_mmap_address machine (old_addr + new_size)) (uint old_addr))
         else Inr (set_result machine (- 1)))"

section \<open>Guest calls and example machines\<close>

text \<open>A guest performs a call by loading the argument registers \<open>a0, a1, ...\<close> and
  trapping; \<open>set_args\<close> loads the registers.\<close>

definition set_args :: "'a Machine \<Rightarrow> 'a list \<Rightarrow> 'a Machine" where
  "set_args machine args =
     machine\<lparr>cpu := (cpu machine)\<lparr>regs :=
       (\<lambda>r. if REG_ARG0 \<le> r \<and> r < REG_ARG0 + length args
            then args ! (r - REG_ARG0) else regs (cpu machine) r)\<rparr>\<rparr>"

text \<open>The addresses returned by consecutive \<open>mmap(0, L)\<close> calls, one per length.\<close>

fun mmap_calls :: "'w::len word list \<Rightarrow> 'w word Machine \<Rightarrow> 'w word list" where
  "mmap_calls [] machine = []"
| "mmap_calls (L # Ls) machine =
     (case syscall_mmap (set_args machine [0, L]) of
        Inl e \<Rightarrow> []
      | Inr machine' \<Rightarrow> result machine' # mmap_calls Ls machine')"

text \<open>The bytes of the guest range \<open>[a, a + n)\<close> by increasing address, and the number
  of pages the range touches.\<close>

definition guest_bytes :: "'a Memory \<Rightarrow> nat \<Rightarrow> nat \<Rightarrow> byte list" where
  "guest_bytes mem a n = map (byte_at mem) [a ..< a + n]"

definition pages_spanned :: "nat \<Rightarrow> nat \<Rightarrow> nat" where
  "pages_spanned a n =
     (if n = 0 then 0 else (a + n - 1) div Page_size - a div Page_size + 1)"

text \<open>A 32-bit example machine. The page at guest address \<open>0x20000\<close> is readable and
  writable; it holds the six bytes of \<open>hello\<close> and a newline at offset 0 and, at offset
  \<open>0x100\<close>, a one-entry iovec \<open>(0x20000, 6)\<close>. The heap starts at \<open>0x10000\<close> and the
  next free mmap address is \<open>0x11000\<close>. The host writes everything it is given,
  supplies the two bytes \<open>hi\<close> to every read, and fails every other call with
  \<open>ENOENT\<close>. The example fd table maps vfd 3 to host fd 7, permits the file system and
  file writes, and its filters reject every request.\<close>

definition hello :: "byte list" where
  "hello = [0x68, 0x65, 0x6C, 0x6C, 0x6F, 0x0A]"

definition rw :: PageAttributes where
  "rw = \<lparr>attr_read = True, attr_write = True, attr_exec = False\<rparr>"

definition example_page :: Page where
  "example_page =
     \<lparr>attr = rw,
      page_data = (\<lambda>i. if i < 6 then hello ! i
                       else if i = 0x102 then 2
                       else if i = 0x104 then 6
                       else 0)\<rparr>"

definition example_answer :: "host_call list \<Rightarrow> host_call \<Rightarrow> host_reply" where
  "example_answer log c =
     (case c of
        Host_write fd bytes \<Rightarrow> \<lparr>rc = int (length bytes), errno = 0, out = []\<rparr>
      | Host_read fd n \<Rightarrow> \<lparr>rc = 2, errno = 0, out = [0x68, 0x69]\<rparr>
      | Machine_stdin n \<Rightarrow> \<lparr>rc = 2, errno = 0, out = [0x68, 0x69]\<rparr>
      | _ \<Rightarrow> \<lparr>rc = - 1, errno = 2, out = []\<rparr>)"

definition example_fds :: FileDescriptors where
  "example_fds =
     \<lparr>translation = [(3, 7)],
      permit_filesystem = True,
      permit_file_write = True,
      filter_open = Some (\<lambda>u path. False),
      filter_stat = Some (\<lambda>u path. False),
      filter_ioctl = Some (\<lambda>u req. False)\<rparr>"

definition example_machine :: "FileDescriptors option \<Rightarrow> 32 word list \<Rightarrow> 32 word Machine" where
  "example_machine fds args =
     set_args
       \<lparr>cpu = \<lparr>regs = (\<lambda>r. 0)\<rparr>,
        memory = \<lparr>pages = [0x20 \<mapsto> example_page],
                  heap_address = 0x10000, mmap_address = 0x11000\<rparr>,
        m_fds = fds, userdata = 0, printed = [],
        host = \<lparr>calls = [], answer = example_answer\<rparr>\<rparr>
       args"

text \<open>A machine whose first 17 pages are mapped, readable and zero, about to call
  \<open>write(1, 4095, 61442)\<close>: the range touches all 17 pages.\<close>

definition wide_machine :: "32 word Machine" where
  "wide_machine =
     (example_machine None [1, 4095, 61442])
       \<lparr>memory := \<lparr>pages = (\<lambda>p. if p \<le> 16 then Some \<lparr>attr = rw, page_data = (\<lambda>i. 0)\<rparr>
                               else None),
                   heap_address = 0x10000, mmap_address = 0x11000\<rparr>\<rparr>"

text \<open>The example machine with its next free mmap address two pages below the top of
  the 32-bit address space.\<close>

definition top_machine :: "32 word Machine" where
  "top_machine =
     (example_machine None [])
       \<lparr>memory := \<lparr>pages = Map.empty, heap_address = 0x10000, mmap_address = 0xFFFFE000\<rparr>\<rparr>"

text \<open>The spec's words for the addresses of consecutive mappings: each is the previous
  one plus the previous length.\<close>

fun spaced_addresses :: "'w::len word \<Rightarrow> 'w word list \<Rightarrow> 'w word list" where
  "spaced_addresses a [] = []"
| "spaced_addresses a (L # Ls) = a # spaced_addresses (a + L) Ls"

section \<open>Properties of the memory model\<close>

text \<open>Gathering a range page by page yields its bytes in order, and as many slices
  as the range touches pages.\<close>

lemma page_slices_0: "page_slices a 0 = []"
  by (simp add: page_slices.simps)

lemma page_slices_pos:
  "0 < n \<Longrightarrow> page_slices a n =
     \<lparr>ptr = a, len = min n (Page_size - a mod Page_size)\<rparr>
       # page_slices (a + min n (Page_size - a mod Page_size)) (n - min n (Page_size - a mod Page_size))"
  by (subst page_slices.simps) (simp add: Let_def)

lemma buffer_bytes_slice: "buffer_bytes mem \<lparr>ptr = a, len = k\<rparr> = guest_bytes mem a k"
  by (simp add: buffer_bytes_def guest_bytes_def)

lemma guest_bytes_split:
  assumes "k \<le> n"
  shows "guest_bytes mem a n = guest_bytes mem a k @ guest_bytes mem (a + k) (n - k)"
proof -
  have "[a ..< a + n] = [a ..< a + k] @ [a + k ..< a + n]"
    using assms upt_add_eq_append[of a "a + k" "n - k"] by simp
  then show ?thesis
    using assms by (simp add: guest_bytes_def)
qed

lemma concat_page_slices:
  "concat (map (buffer_bytes mem) (page_slices a n)) = guest_bytes mem a n"
proof (induction a n rule: page_slices.induct)
  case (1 a n)
  show ?case
  proof (cases "n = 0")
    case True
    then show ?thesis by (simp add: page_slices_0 guest_bytes_def)
  next
    case False
    define k where "k = min n (Page_size - a mod Page_size)"
    have kn: "k \<le> n" by (simp add: k_def)
    have IH: "concat (map (buffer_bytes mem) (page_slices (a + k) (n - k))) = guest_bytes mem (a + k) (n - k)"
      using 1 False by (simp add: k_def)
    show ?thesis
      using False IH guest_bytes_split[OF kn, of mem a]
      by (simp add: page_slices_pos k_def[symmetric] buffer_bytes_slice)
  qed
qed

lemma next_boundary_aux: "r < P \<Longrightarrow> r \<le> a \<Longrightarrow> a - r = q \<Longrightarrow> a + (P - r) = q + (P::nat)"
  by arith

lemma length_page_slices: "length (page_slices a n) = pages_spanned a n"
proof (induction a n rule: page_slices.induct)
  case (1 a n)
  show ?case
  proof (cases "n = 0")
    case True
    then show ?thesis by (simp add: page_slices_0 pages_spanned_def)
  next
    case False
    define k where "k = min n (Page_size - a mod Page_size)"
    have kn: "k \<le> n" by (simp add: k_def)
    have IH: "length (page_slices (a + k) (n - k)) = pages_spanned (a + k) (n - k)"
      using 1 False by (simp add: k_def)
    show ?thesis
    proof (cases "n \<le> Page_size - a mod Page_size")
      case True
      then have k: "k = n" by (simp add: k_def)
      have "a mod Page_size + (n - 1) < Page_size"
        using True False by (simp add: Page_size_def)
      then have r: "(a mod Page_size + (n - 1)) div Page_size = 0"
        by (rule div_less)
      have "(a + n - 1) div Page_size
              = ((a mod Page_size + (n - 1)) + a div Page_size * Page_size) div Page_size"
        using False by simp
      also have "\<dots> = a div Page_size + (a mod Page_size + (n - 1)) div Page_size"
        by (rule div_mult_self1) (simp add: Page_size_def)
      finally have "(a + n - 1) div Page_size = a div Page_size"
        using r by simp
      then show ?thesis
        using False k by (simp add: page_slices_pos k_def[symmetric] page_slices_0 pages_spanned_def)
    next
      case gt: False
      then have k: "k = Page_size - a mod Page_size" and kn': "k < n" by (simp_all add: k_def)
      have "a mod Page_size < Page_size"
        by (simp add: Page_size_def)
      moreover have "a mod Page_size \<le> a"
        by (rule mod_less_eq_dividend)
      moreover have "a - a mod Page_size = a div Page_size * Page_size"
        by (rule minus_mod_eq_div_mult)
      ultimately have "a + k = a div Page_size * Page_size + Page_size"
        unfolding k by (rule next_boundary_aux)
      then have ak: "a + k = (a div Page_size + 1) * Page_size"
        by simp
      have d1: "(a + k) div Page_size = a div Page_size + 1"
        unfolding ak by (rule nonzero_mult_div_cancel_right) (simp add: Page_size_def)
      have "a + k \<le> a + n - 1"
        using kn' by simp
      then have "(a + k) div Page_size \<le> (a + n - 1) div Page_size"
        by (rule div_le_mono)
      then have d2: "a div Page_size + 1 \<le> (a + n - 1) div Page_size"
        by (simp only: d1)
      have "length (page_slices a n) = Suc (length (page_slices (a + k) (n - k)))"
        using False by (simp add: page_slices_pos[of n a] k_def[symmetric])
      also have "\<dots> = Suc (pages_spanned (a + k) (n - k))"
        by (simp only: IH)
      also have "\<dots> = Suc ((a + n - 1) div Page_size - (a div Page_size + 1) + 1)"
        using kn' d1 by (simp add: pages_spanned_def)
      also have "\<dots> = (a + n - 1) div Page_size - a div Page_size + 1"
        using d2 by arith
      finally show ?thesis
        using False by (simp add: pages_spanned_def)
    qed
  qed
qed

lemma length_buffer_bytes: "length (buffer_bytes mem b) = len b"
  by (simp add: buffer_bytes_def)

lemma length_guest_bytes: "length (guest_bytes mem a n) = n"
  by (simp add: guest_bytes_def)

lemma readable_mapped: "page_readable mem b \<Longrightarrow> page_mapped mem b"
  by (simp add: page_readable_def page_mapped_def split: option.splits)

lemma gather_all:
  assumes "list_all (page_readable mem) (page_slices a n)" and "pages_spanned a n \<le> k"
  shows "gather_buffers_from_range k mem a n = page_slices a n"
proof -
  have "list_all (page_mapped mem) (page_slices a n)"
    using assms(1) by (auto simp: list_all_iff readable_mapped)
  then show ?thesis using assms(2) by (simp add: gather_buffers_from_range_def length_page_slices)
qed

section \<open>Accessors\<close>

lemma sysarg_set_args: "i < length args \<Longrightarrow> sysarg (set_args machine args) i = args ! i"
  by (simp add: sysarg_def set_args_def)

lemma result_set_result: "result (set_result machine v) = word_of_int v"
  by (simp add: result_def set_result_def)

lemma calls_set_result: "calls (host (set_result machine v)) = calls (host machine)"
  by (simp add: set_result_def)

lemma printed_set_result [simp]: "printed (set_result machine v) = printed machine"
  by (simp add: set_result_def)

lemma memory_set_args [simp]: "memory (set_args machine args) = memory machine"
  by (simp add: set_args_def)

lemma memory_set_result [simp]: "memory (set_result machine v) = memory machine"
  by (simp add: set_result_def)

lemma mmap_address_set [simp]:
  "mmap_address (memory (set_mmap_address machine a)) = a"
  by (simp add: set_mmap_address_def)

lemma result_set_mmap_address [simp]:
  "result (set_mmap_address machine a) = result machine"
  by (simp add: set_mmap_address_def result_def)

lemma print_memory [simp]: "memory (print machine bytes) = memory machine"
  by (simp add: print_def)

lemma print_print: "print (print machine xs) ys = print machine (xs @ ys)"
  by (simp add: print_def)

lemma printed_print: "printed (print machine bytes) = printed machine @ bytes"
  by (simp add: print_def)

lemma fold_print_buffer:
  "fold print_buffer bs machine = print machine (concat (map (buffer_bytes (memory machine)) bs))"
proof (induction bs arbitrary: machine)
  case Nil
  show ?case by (simp add: print_def)
next
  case (Cons b bs)
  have "fold print_buffer (b # bs) machine = fold print_buffer bs (print_buffer b machine)"
    by simp
  also have "\<dots> = print (print_buffer b machine)
      (concat (map (buffer_bytes (memory (print_buffer b machine))) bs))"
    by (rule Cons.IH)
  also have "\<dots> = print machine (concat (map (buffer_bytes (memory machine)) (b # bs)))"
    by (simp add: print_buffer_def print_print)
  finally show ?case .
qed

section \<open>The example machines\<close>

lemmas example_defs = example_machine_def set_args_def REG_ARG0_def REG_ECALL_def

lemma example_sysarg:
  "i < length args \<Longrightarrow> sysarg (example_machine fds args) i = args ! i"
  by (simp add: example_machine_def sysarg_set_args)

lemma example_sysarg_int:
  "i < length args \<Longrightarrow> sysarg_int (example_machine fds args) i = sint (args ! i)"
  by (simp add: sysarg_int_def example_sysarg)

lemma example_fields:
  "m_fds (example_machine fds args) = fds"
  "userdata (example_machine fds args) = 0"
  "printed (example_machine fds args) = []"
  "host (example_machine fds args) = \<lparr>calls = [], answer = example_answer\<rparr>"
  "heap_address (memory (example_machine fds args)) = 0x10000"
  "mmap_address (memory (example_machine fds args)) = 0x11000"
  by (simp_all add: example_machine_def set_args_def)

lemma example_slices: "page_slices 0x20000 6 = [\<lparr>ptr = 0x20000, len = 6\<rparr>]"
  by (simp add: page_slices_pos page_slices_0 Page_size_def)

lemma example_bytes:
  "buffer_bytes (memory (example_machine fds args)) \<lparr>ptr = 0x20000, len = 6\<rparr> = hello"
  by (simp add: buffer_bytes_def byte_at_def example_defs example_page_def hello_def Page_size_def
      upt_rec_numeral)

lemma example_mapped:
  "page_mapped (memory (example_machine fds args)) \<lparr>ptr = 0x20000, len = n\<rparr>"
  "page_readable (memory (example_machine fds args)) \<lparr>ptr = 0x20000, len = n\<rparr>"
  by (simp_all add: page_mapped_def page_readable_def example_defs example_page_def rw_def Page_size_def)

lemma example_path:
  "\<exists>path. guest_path (example_machine fds args) 0x20000 = Inr path"
  by (simp add: guest_path_def copy_from_guest_def memcpy_out_def PATH_MAX_def
      page_slices_pos page_slices_0 Page_size_def page_readable_def example_defs example_page_def rw_def)

lemma wide_args:
  "sysarg_int wide_machine 0 = 1" "unat (sysarg wide_machine 1) = 4095" "unat (sysarg wide_machine 2) = 61442"
  by (simp_all add: wide_machine_def example_defs sysarg_def sysarg_int_def)

lemma wide_printed: "printed wide_machine = []"
  by (simp add: wide_machine_def example_defs)

lemma wide_slices:
  "page_slices 4095 61442 =
     \<lparr>ptr = 4095, len = 1\<rparr> #
     map (\<lambda>p. \<lparr>ptr = p * 4096, len = 4096\<rparr>) [1, 2, 3, 4, 5, 6, 7, 8, 9, 10, 11, 12, 13, 14, 15] @ [\<lparr>ptr = 65536, len = 1\<rparr>]"
  by (simp add: page_slices_pos page_slices_0 Page_size_def)

lemma wide_readable:
  "list_all (page_readable (memory wide_machine)) (page_slices 4095 61442)"
  by (simp add: wide_slices page_readable_def wide_machine_def Page_size_def rw_def)

lemma wide_write:
  "syscall_write wide_machine =
     Inr (set_result (print wide_machine
            (concat (map (buffer_bytes (memory wide_machine)) (take 16 (page_slices 4095 61442)))))
          61442)"
proof -
  have "list_all (page_mapped (memory wide_machine)) (page_slices 4095 61442)"
    using wide_readable by (auto simp: list_all_iff readable_mapped)
  then show ?thesis
    unfolding syscall_write_def Let_def wide_args gather_buffers_from_range_def
    by (simp add: fold_print_buffer)
qed

section \<open>Consecutive mappings\<close>

lemma mmap_takes_next:
  assumes "unat (sysarg machine 0) mod Page_size = 0"
    and "unat (sysarg machine 1) mod Page_size = 0"
    and "sysarg machine 0 = 0 \<or> sysarg machine 0 = mmap_address (memory machine)"
  shows "syscall_mmap machine =
           Inr (set_mmap_address
                  (set_result machine (uint (mmap_address (memory machine))))
                  (mmap_address (memory machine) + sysarg machine 1))"
  using assms by (auto simp: syscall_mmap_def Let_def)

lemma mmap_below_fails:
  assumes "unat (sysarg machine 0) mod Page_size = 0"
    and "unat (sysarg machine 1) mod Page_size = 0"
    and "sysarg machine 0 \<noteq> 0" and "sysarg machine 0 < mmap_address (memory machine)"
  shows "syscall_mmap machine = Inr (set_result machine (- 1))"
  using assms by (auto simp: syscall_mmap_def Let_def)

lemma mmap_calls_spaced:
  assumes "\<forall>L \<in> set Ls. unat L mod Page_size = 0"
  shows "mmap_calls Ls machine = spaced_addresses (mmap_address (memory machine)) Ls"
  using assms
proof (induction Ls arbitrary: machine)
  case Nil
  show ?case by simp
next
  case (Cons L Ls)
  let ?m = "set_args machine [0, L]"
  have L: "unat L mod Page_size = 0"
    using Cons.prems by simp
  have call: "syscall_mmap ?m =
      Inr (set_mmap_address (set_result ?m (uint (mmap_address (memory machine))))
             (mmap_address (memory machine) + L))"
    using mmap_takes_next [of ?m] L by (simp add: sysarg_set_args)
  show ?case
    using Cons.prems by (simp add: call Cons.IH result_set_result)
qed

lemma spaced_lower:
  assumes "unat a + sum_list (map unat Ls) < 2 ^ LENGTH('w)"
  shows "\<forall>x \<in> set (spaced_addresses (a :: 'w::len word) Ls). a \<le> x"
  using assms
proof (induction Ls arbitrary: a)
  case Nil
  show ?case by simp
next
  case (Cons L Ls)
  have fit: "unat a + unat L < 2 ^ LENGTH('w)"
    using Cons.prems by simp
  then have sum: "unat (a + L) = unat a + unat L"
    by (simp add: unat_add_lem)
  have le: "a \<le> a + L"
    using fit by (simp add: no_olen_add_nat)
  have "\<forall>x \<in> set (spaced_addresses (a + L) Ls). a + L \<le> x"
    using Cons.prems by (intro Cons.IH) (simp add: sum)
  then show ?case
    using le by auto
qed

lemma spaced_sorted:
  assumes "unat a + sum_list (map unat Ls) < 2 ^ LENGTH('w)" and "\<forall>L \<in> set Ls. L \<noteq> 0"
  shows "sorted_wrt (<) (spaced_addresses (a :: 'w::len word) Ls)"
  using assms
proof (induction Ls arbitrary: a)
  case Nil
  show ?case by simp
next
  case (Cons L Ls)
  have fit: "unat a + unat L < 2 ^ LENGTH('w)"
    using Cons.prems by simp
  then have sum: "unat (a + L) = unat a + unat L"
    by (simp add: unat_add_lem)
  have "0 < unat L"
    using Cons.prems by (simp add: unat_gt_0)
  then have less: "a < a + L"
    by (simp add: word_less_nat_alt sum)
  have rest: "unat (a + L) + sum_list (map unat Ls) < 2 ^ LENGTH('w)"
    using Cons.prems by (simp add: sum)
  have "\<forall>x \<in> set (spaced_addresses (a + L) Ls). a + L \<le> x"
    using rest by (rule spaced_lower)
  then have "\<forall>x \<in> set (spaced_addresses (a + L) Ls). a < x"
    using less by auto
  moreover have "sorted_wrt (<) (spaced_addresses (a + L) Ls)"
    using rest Cons.prems by (intro Cons.IH) simp_all
  ultimately show ?case by simp
qed

lemma spaced_aligned:
  assumes "unat a + sum_list (map unat Ls) < 2 ^ LENGTH('w)"
    and "unat a mod Page_size = 0" and "\<forall>L \<in> set Ls. unat L mod Page_size = 0"
  shows "\<forall>x \<in> set (spaced_addresses (a :: 'w::len word) Ls). unat x mod Page_size = 0"
  using assms
proof (induction Ls arbitrary: a)
  case Nil
  show ?case by simp
next
  case (Cons L Ls)
  have fit: "unat a + unat L < 2 ^ LENGTH('w)"
    using Cons.prems by simp
  then have sum: "unat (a + L) = unat a + unat L"
    by (simp add: unat_add_lem)
  have "unat (a + L) mod Page_size = 0"
    using Cons.prems by (simp add: sum mod_add_eq[symmetric] del: mod_add_eq) 
  moreover have "unat (a + L) + sum_list (map unat Ls) < 2 ^ LENGTH('w)"
    using Cons.prems by (simp add: sum)
  ultimately have "\<forall>x \<in> set (spaced_addresses (a + L) Ls). unat x mod Page_size = 0"
    using Cons.prems by (intro Cons.IH) simp_all
  then show ?case
    using Cons.prems by simp
qed

section \<open>Properties of the handlers\<close>

text \<open>C1: a \<open>write\<close> to fd 1 or 2 whose guest range lies in mapped readable pages and
  touches at most 16 pages (the handler gathers at most 16 slices, one per page) returns
  normally; the print sink has received exactly the bytes of the range, by increasing
  address, \<open>a0\<close> equals the length, and nothing else has changed.\<close>

theorem write_stdout_emits:
  assumes "sysarg_int machine 0 = 1 \<or> sysarg_int machine 0 = 2"
    and "list_all (page_readable (memory machine))
           (page_slices (unat (sysarg machine 1)) (unat (sysarg machine 2)))"
    and "pages_spanned (unat (sysarg machine 1)) (unat (sysarg machine 2)) \<le> 16"
  shows "syscall_write machine =
           Inr (set_result
                  (print machine (guest_bytes (memory machine)
                     (unat (sysarg machine 1)) (unat (sysarg machine 2))))
                  (uint (sysarg machine 2))) \<and>
         result (set_result
                  (print machine (guest_bytes (memory machine)
                     (unat (sysarg machine 1)) (unat (sysarg machine 2))))
                  (uint (sysarg machine 2))) = sysarg machine 2"
  using assms(1) gather_all [OF assms(2,3)]
  by (auto simp: syscall_write_def Let_def fold_print_buffer concat_page_slices result_set_result)

text \<open>The guest writes the six bytes of \<open>hello\<close> and a newline to fd 1.\<close>

theorem write_stdout_emits_witness:
  "map_sum id (\<lambda>m. (result m, printed m))
     (syscall_write (example_machine None [1, 0x20000, 6]))
   = Inr (6, [0x68, 0x65, 0x6C, 0x6C, 0x6F, 0x0A])"
proof -
  have "guest_bytes (memory (example_machine None [1, 0x20000, 6])) 0x20000 6 = hello"
    using example_bytes [of None "[1, 0x20000, 6]"] by (simp add: buffer_bytes_slice)
  then show ?thesis
    using write_stdout_emits [of "example_machine None [1, 0x20000, 6]"]
    by (simp add: example_sysarg example_sysarg_int example_slices example_mapped
        pages_spanned_def Page_size_def result_set_result printed_print example_fields hello_def)
qed

text \<open>Without the bound on the pages the statement fails: of the 61442 bytes of a mapped,
  readable range that touches 17 pages, the sink receives the 61441 bytes of the first
  16 slices.\<close>

theorem write_stdout_wide_counterexample:
  "sysarg_int wide_machine 0 = 1 \<and>
   list_all (page_readable (memory wide_machine))
     (page_slices (unat (sysarg wide_machine 1)) (unat (sysarg wide_machine 2))) \<and>
   syscall_write wide_machine \<noteq>
     Inr (set_result
            (print wide_machine (guest_bytes (memory wide_machine)
               (unat (sysarg wide_machine 1)) (unat (sysarg wide_machine 2))))
            (uint (sysarg wide_machine 2))) \<and>
   map_sum id (\<lambda>m. (length (printed m), result m)) (syscall_write wide_machine)
     = Inr (61441, 61442)"
proof -
  let ?emitted = "concat (map (buffer_bytes (memory wide_machine)) (take 16 (page_slices 4095 61442)))"
  let ?range = "guest_bytes (memory wide_machine) 4095 61442"
  have emitted: "length ?emitted = 61441"
    by (simp add: length_buffer_bytes wide_slices)
  have range: "length ?range = 61442"
    by (rule length_guest_bytes)
  have "syscall_write wide_machine \<noteq>
          Inr (set_result (print wide_machine ?range) (uint (sysarg wide_machine 2)))"
  proof
    assume "syscall_write wide_machine =
              Inr (set_result (print wide_machine ?range) (uint (sysarg wide_machine 2)))"
    then have "set_result (print wide_machine ?emitted) 61442 =
                 set_result (print wide_machine ?range) (uint (sysarg wide_machine 2))"
      by (simp only: wide_write sum.inject)
    then have "printed (set_result (print wide_machine ?emitted) 61442) =
                 printed (set_result (print wide_machine ?range) (uint (sysarg wide_machine 2)))"
      by (rule arg_cong)
    then have "?emitted = ?range"
      by (simp only: printed_set_result printed_print wide_printed append_Nil)
    then have "length ?emitted = length ?range"
      by (rule arg_cong)
    then show False
      by (simp add: emitted range)
  qed
  moreover have "map_sum id (\<lambda>m. (length (printed m), result m)) (syscall_write wide_machine)
      = Inr (61441, 61442)"
    by (simp only: wide_write map_sum.simps id_apply printed_set_result printed_print
        wide_printed append_Nil emitted result_set_result) simp
  ultimately show ?thesis
    unfolding wide_args using wide_readable by simp
qed

text \<open>C2: a system call whose number has no handler in the table leaves the machine as it
  was, except that \<open>a0\<close> holds \<open>-ENOSYS = -38\<close>; the dispatch itself is modelled from the
  spec.\<close>

theorem unassigned_syscall_nosys:
  assumes "table (unat (regs (cpu machine) REG_ECALL)) = None"
  shows "system_call table machine =
           Inr (machine\<lparr>cpu := (cpu machine)\<lparr>regs := (regs (cpu machine))(REG_ARG0 := - 38)\<rparr>\<rparr>)"
  using assms by (simp add: system_call_def syscall_stub_nosys_def set_result_def ENOSYS_def)

theorem unassigned_syscall_nosys_witness:
  "map_sum id result
     (system_call
        (install_syscall_handler (install_syscall_handler Map.empty 63 syscall_read) 64 syscall_write)
        (example_machine None [0, 0, 0, 0, 0, 0, 0, 999]))
   = Inr (- 38)"
  using unassigned_syscall_nosys
    [of "install_syscall_handler (install_syscall_handler Map.empty 63 syscall_read) 64 syscall_write"
        "example_machine None [0, 0, 0, 0, 0, 0, 0, 999]"]
  by (simp add: install_syscall_handler_def example_defs result_def)

text \<open>C3: when the heap interval \<open>[heap_base, heap_base + BRK_MAX]\<close> does not wrap around
  (the invariant of the memory), \<open>brk\<close> returns normally with \<open>a0\<close> the clamp of its argument
  to that interval, for every argument.\<close>

theorem brk_clamps:
  assumes "heap_address (memory machine) \<le> heap_address (memory machine) + BRK_MAX"
  shows "syscall_brk BRK_MAX machine =
           Inr (set_result machine (uint (max (heap_address (memory machine))
                  (min (heap_address (memory machine) + BRK_MAX) (sysarg machine 0)))))"
  using assms by (auto simp: syscall_brk_def Let_def max_def min_def)

theorem brk_clamps_witness:
  "map_sum id result (syscall_brk 0x1000 (example_machine None [0x1000])) = Inr 0x10000 \<and>
   map_sum id result (syscall_brk 0x1000 (example_machine None [0x20000])) = Inr 0x11000"
  using brk_clamps [of "example_machine None [0x1000]" "0x1000"]
        brk_clamps [of "example_machine None [0x20000]" "0x1000"]
  by (simp add: example_defs result_set_result sysarg_def)

text \<open>C4: for page-aligned \<open>addr\<close> and \<open>length\<close>, \<open>mmap\<close> with \<open>addr = 0\<close> or \<open>addr\<close> the next
  free address returns the next free address and advances it by \<open>length\<close>; with a
  non-zero \<open>addr\<close> below the next free address it returns \<open>-1\<close>; and consecutive
  \<open>mmap(0, L)\<close> calls with non-zero page-aligned lengths that fit below the top of the
  address space, from a page-aligned next free address, return strictly increasing
  page-aligned addresses separated by the lengths.\<close>

theorem mmap_next_free_monotone:
  "(unat (sysarg machine 0) mod Page_size = 0 \<and> unat (sysarg machine 1) mod Page_size = 0 \<and>
    (sysarg machine 0 = 0 \<or> sysarg machine 0 = mmap_address (memory machine))
      \<longrightarrow> syscall_mmap machine =
            Inr (set_mmap_address
                   (set_result machine (uint (mmap_address (memory machine))))
                   (mmap_address (memory machine) + sysarg machine 1))) \<and>
   (unat (sysarg machine 0) mod Page_size = 0 \<and> unat (sysarg machine 1) mod Page_size = 0 \<and>
    sysarg machine 0 \<noteq> 0 \<and> sysarg machine 0 < mmap_address (memory machine)
      \<longrightarrow> syscall_mmap machine = Inr (set_result machine (- 1))) \<and>
   (unat (mmap_address (memory machine)) mod Page_size = 0 \<and>
    (\<forall>L \<in> set Ls. unat L mod Page_size = 0 \<and> L \<noteq> 0) \<and>
    unat (mmap_address (memory machine)) + sum_list (map unat Ls) < 2 ^ LENGTH('w)
      \<longrightarrow> mmap_calls Ls machine = spaced_addresses (mmap_address (memory machine)) Ls \<and>
          sorted_wrt (<) (mmap_calls Ls machine) \<and>
          (\<forall>a \<in> set (mmap_calls Ls machine). unat a mod Page_size = 0))"
  for machine :: "'w::len word Machine"
proof (intro conjI impI)
  assume "unat (sysarg machine 0) mod Page_size = 0 \<and> unat (sysarg machine 1) mod Page_size = 0 \<and>
    (sysarg machine 0 = 0 \<or> sysarg machine 0 = mmap_address (memory machine))"
  then show "syscall_mmap machine =
            Inr (set_mmap_address
                   (set_result machine (uint (mmap_address (memory machine))))
                   (mmap_address (memory machine) + sysarg machine 1))"
    by (intro mmap_takes_next) simp_all
next
  assume "unat (sysarg machine 0) mod Page_size = 0 \<and> unat (sysarg machine 1) mod Page_size = 0 \<and>
    sysarg machine 0 \<noteq> 0 \<and> sysarg machine 0 < mmap_address (memory machine)"
  then show "syscall_mmap machine = Inr (set_result machine (- 1))"
    by (intro mmap_below_fails) simp_all
next
  assume h: "unat (mmap_address (memory machine)) mod Page_size = 0 \<and>
    (\<forall>L \<in> set Ls. unat L mod Page_size = 0 \<and> L \<noteq> 0) \<and>
    unat (mmap_address (memory machine)) + sum_list (map unat Ls) < 2 ^ LENGTH('w)"
  then have eq: "mmap_calls Ls machine = spaced_addresses (mmap_address (memory machine)) Ls"
    by (intro mmap_calls_spaced) simp
  show "mmap_calls Ls machine = spaced_addresses (mmap_address (memory machine)) Ls"
    by (rule eq)
  show "sorted_wrt (<) (mmap_calls Ls machine)"
    unfolding eq using h by (intro spaced_sorted) simp_all
  show "\<forall>a \<in> set (mmap_calls Ls machine). unat a mod Page_size = 0"
    unfolding eq using h by (intro spaced_aligned) simp_all
qed

theorem mmap_next_free_monotone_witness:
  "map_sum id (\<lambda>m. (result m, mmap_address (memory m)))
     (syscall_mmap (example_machine None [0, 0x2000])) = Inr (0x11000, 0x13000) \<and>
   map_sum id (\<lambda>m. (result m, mmap_address (memory m)))
     (syscall_mmap (example_machine None [0x11000, 0x2000])) = Inr (0x11000, 0x13000) \<and>
   map_sum id result (syscall_mmap (example_machine None [0x10000, 0x1000])) = Inr (- 1) \<and>
   mmap_calls [0x1000, 0x2000, 0x1000] (example_machine None []) = [0x11000, 0x12000, 0x14000]"
  using mmap_next_free_monotone [of "example_machine None [0, 0x2000]" "[]"]
        mmap_next_free_monotone [of "example_machine None [0x11000, 0x2000]" "[]"]
        mmap_next_free_monotone [of "example_machine None [0x10000, 0x1000]" "[]"]
        mmap_next_free_monotone [of "example_machine None []" "[0x1000, 0x2000, 0x1000]"]
  by (simp add: example_sysarg example_fields Page_size_def result_set_result)

text \<open>Two mappings of length 0 return the same address, and mappings that run over the
  top of the address space return a smaller address after a larger one.\<close>

theorem mmap_monotone_counterexample:
  "unat (0 :: 32 word) mod Page_size = 0 \<and>
   mmap_calls [0, 0] (example_machine None []) = [0x11000, 0x11000] \<and>
   \<not> sorted_wrt (<) (mmap_calls [0, 0] (example_machine None [])) \<and>
   unat (0x1000 :: 32 word) mod Page_size = 0 \<and>
   mmap_calls [0x1000, 0x1000, 0x1000] top_machine = [0xFFFFE000, 0xFFFFF000, 0] \<and>
   \<not> sorted_wrt (<) (mmap_calls [0x1000, 0x1000, 0x1000] top_machine)"
proof -
  have "mmap_calls [0, 0] (example_machine None []) =
          spaced_addresses (mmap_address (memory (example_machine None []))) [0, 0]"
    by (rule mmap_calls_spaced) (simp add: Page_size_def)
  then have zero: "mmap_calls [0, 0] (example_machine None []) = [0x11000, 0x11000]"
    by (simp add: example_fields)
  have "mmap_calls [0x1000, 0x1000, 0x1000] top_machine =
          spaced_addresses (mmap_address (memory top_machine)) [0x1000, 0x1000, 0x1000]"
    by (rule mmap_calls_spaced) (simp add: Page_size_def)
  then have top: "mmap_calls [0x1000, 0x1000, 0x1000] top_machine = [0xFFFFE000, 0xFFFFF000, 0]"
    by (simp add: top_machine_def)
  show ?thesis
    unfolding zero top by (simp add: Page_size_def)
qed

text \<open>C5: \<open>mremap\<close> takes its success branch exactly when \<open>old_addr + old_size\<close> is the next
  free mmap address; it then returns \<open>old_addr\<close> and sets the next free address to
  \<open>old_addr + new_size\<close>; otherwise the result is \<open>-1\<close> and nothing else changes.\<close>

theorem mremap_extends_last:
  "syscall_mremap machine =
     (if sysarg machine 0 + sysarg machine 1 = mmap_address (memory machine)
      then Inr (set_result (set_mmap_address machine (sysarg machine 0 + sysarg machine 2))
                  (uint (sysarg machine 0)))
      else Inr (set_result machine (- 1)))"
  by (simp add: syscall_mremap_def Let_def)

theorem mremap_extends_last_witness:
  "map_sum id (\<lambda>m. (result m, mmap_address (memory m)))
     (syscall_mremap (example_machine None [0x10000, 0x1000, 0x3000])) = Inr (0x10000, 0x13000) \<and>
   map_sum id (\<lambda>m. (result m, mmap_address (memory m)))
     (syscall_mremap (example_machine None [0x10000, 0x2000, 0x3000])) = Inr (- 1, 0x11000)"
  using mremap_extends_last [of "example_machine None [0x10000, 0x1000, 0x3000]"]
        mremap_extends_last [of "example_machine None [0x10000, 0x2000, 0x3000]"]
  by (simp add: example_defs result_def set_result_def set_mmap_address_def sysarg_def)

text \<open>C6: a \<open>read\<close> from fd 0, or from an fd \<open>\<ge> 3\<close> on a machine with a file-descriptor
  table, returns normally with \<open>a0\<close> the requested length, whatever the stdin source or
  the host supplies (the host's answers are arbitrary).\<close>

theorem read_reports_len:
  assumes "sysarg_int machine 0 = 0 \<or> (sysarg_int machine 0 \<ge> 3 \<and> m_fds machine \<noteq> None)"
  shows "\<exists>machine'. syscall_read machine = Inr machine' \<and> result machine' = sysarg machine 2"
  using assms by (auto simp: syscall_read_def Let_def result_set_result)

text \<open>The example host supplies two bytes to a request for six.\<close>

theorem read_reports_len_witness:
  "out (example_answer [] (Machine_stdin 6)) = [0x68, 0x69] \<and>
   map_sum id result (syscall_read (example_machine None [0, 0x20000, 6])) = Inr 6 \<and>
   out (example_answer [] (Host_read 7 6)) = [0x68, 0x69] \<and>
   map_sum id result (syscall_read (example_machine (Some example_fds) [3, 0x20000, 6])) = Inr 6"
  using read_reports_len [of "example_machine None [0, 0x20000, 6]"]
        read_reports_len [of "example_machine (Some example_fds) [3, 0x20000, 6]"]
  by (auto simp: example_sysarg example_sysarg_int example_fields example_answer_def)

text \<open>C7: \<open>writev\<close> serves fd 1 and 2 only: with an fd \<open>\<ge> 3\<close> and a count within
  \<open>[0, 256]\<close> it sets the result to \<open>-EBADF\<close> and calls the host not at all, whether or not
  the machine has a file-descriptor table that permits file writes.\<close>

theorem writev_file_ebadf:
  assumes "3 \<le> sysarg_int machine 0"
    and "0 \<le> sysarg_int machine 2" and "sysarg_int machine 2 \<le> 256"
  shows "syscall_writev machine = Inr (set_result machine (- EBADF)) \<and>
         calls (host (set_result machine (- EBADF))) = calls (host machine)"
  using assms by (simp add: syscall_writev_def Let_def calls_set_result)

theorem writev_file_ebadf_witness:
  "map_sum id (\<lambda>m. (result m, calls (host m)))
     (syscall_writev (example_machine (Some example_fds) [3, 0x20100, 1])) = Inr (- 9, [])"
  using writev_file_ebadf [of "example_machine (Some example_fds) [3, 0x20100, 1]"]
  by (simp add: example_defs sysarg_def sysarg_int_def result_def set_result_def EBADF_def)

text \<open>With vfd 3 mapped to host fd 7 and file writes permitted, \<open>write\<close> of the six
  bytes writes them to the host and returns 6, whereas \<open>writev\<close> of the one-entry
  iovec naming the same bytes returns \<open>-EBADF\<close> and writes nothing.\<close>

theorem writev_file_counterexample:
  "sysarg_int (example_machine (Some example_fds) [3, 0x20100, 1]) 0 = 3 \<and>
   m_fds (example_machine (Some example_fds) [3, 0x20100, 1]) = Some example_fds \<and>
   permit_file_write example_fds \<and>
   map_sum id (\<lambda>m. (result m, calls (host m)))
     (syscall_writev (example_machine (Some example_fds) [3, 0x20100, 1])) = Inr (- 9, []) \<and>
   map_sum id (\<lambda>m. (result m, calls (host m)))
     (syscall_write (example_machine (Some example_fds) [3, 0x20000, 6]))
     = Inr (6, [Host_write 7 hello])"
proof -
  have w: "map_sum id (\<lambda>m. (result m, calls (host m)))
     (syscall_write (example_machine (Some example_fds) [3, 0x20000, 6]))
     = Inr (6, [Host_write 7 hello])"
    by (simp add: syscall_write_def Let_def example_sysarg example_sysarg_int example_fields
         gather_buffers_from_range_def example_slices example_mapped example_bytes host_do_def
         example_fds_def get_def translate_def example_answer_def result_set_result
         calls_set_result hello_def)
  have v: "map_sum id (\<lambda>m. (result m, calls (host m)))
     (syscall_writev (example_machine (Some example_fds) [3, 0x20100, 1])) = Inr (- 9, [])"
    by (simp add: syscall_writev_def Let_def example_defs sysarg_def sysarg_int_def result_def
        set_result_def EBADF_def)
  show ?thesis
    using w v by (simp add: example_defs sysarg_def sysarg_int_def example_fds_def)
qed

text \<open>C8: whatever the fd, \<open>writev\<close> with a count that is negative or above 256 sets the
  result to \<open>-EINVAL\<close> and does nothing else.\<close>

theorem writev_count_einval:
  assumes "sysarg_int machine 2 < 0 \<or> sysarg_int machine 2 > 256"
  shows "syscall_writev machine = Inr (set_result machine (- EINVAL))"
  using assms by (auto simp: syscall_writev_def Let_def)

theorem writev_count_einval_witness:
  "map_sum id result (syscall_writev (example_machine None [1, 0x20100, 257])) = Inr (- 22) \<and>
   map_sum id result (syscall_writev (example_machine (Some example_fds) [3, 0x20100, - 1])) = Inr (- 22)"
  using writev_count_einval [of "example_machine None [1, 0x20100, 257]"]
        writev_count_einval [of "example_machine (Some example_fds) [3, 0x20100, - 1]"]
  by (simp add: example_defs result_set_result sysarg_def sysarg_int_def EINVAL_def)

text \<open>C9: \<open>read\<close> with an fd other than 0 on a machine without a file-descriptor table sets
  the result to \<open>-EBADF = -9\<close>.\<close>

theorem read_no_fds_ebadf:
  assumes "sysarg_int machine 0 \<noteq> 0" and "m_fds machine = None"
  shows "syscall_read machine = Inr (set_result machine (- EBADF))"
  using assms by (simp add: syscall_read_def Let_def)

theorem read_no_fds_ebadf_witness:
  "map_sum id result (syscall_read (example_machine None [42, 0x20000, 16])) = Inr (- 9)"
  using read_no_fds_ebadf [of "example_machine None [42, 0x20000, 16]"]
  by (simp add: example_defs result_set_result sysarg_def sysarg_int_def EBADF_def)

text \<open>C10: when the handler consults an installed filter and the filter rejects the request
  (\<open>filter_open\<close> in \<open>openat\<close> and \<open>readlinkat\<close>, \<open>filter_ioctl\<close> in \<open>ioctl\<close>, \<open>filter_stat\<close> in
  \<open>statx\<close>), the handler returns with the result \<open>-EPERM\<close> and the machine otherwise
  unchanged; in particular no host call has been made.\<close>

theorem filter_rejection_eperm:
  "(m_fds machine = Some fds \<and> permit_filesystem fds \<and> filter_open fds = Some f \<and>
    guest_path machine (unat (sysarg machine 1)) = Inr path \<and> \<not> f (userdata machine) path
      \<longrightarrow> syscall_openat machine = Inr (set_result machine (- EPERM))) \<and>
   (m_fds machine = Some fds \<and> filter_open fds = Some f \<and>
    guest_path machine (unat (sysarg machine 1)) = Inr path \<and>
    unat (sysarg machine 3) \<le> 16384 \<and> \<not> f (userdata machine) path
      \<longrightarrow> syscall_readlinkat machine = Inr (set_result machine (- EPERM))) \<and>
   (m_fds machine = Some fds \<and> filter_ioctl fds = Some g \<and>
    \<not> g (userdata machine) (sysarg_uint64 machine 1)
      \<longrightarrow> syscall_ioctl machine = Inr (set_result machine (- EPERM))) \<and>
   (m_fds machine = Some fds \<and> filter_stat fds = Some f \<and>
    guest_path machine (unat (sysarg machine 1)) = Inr path \<and> \<not> f (userdata machine) path
      \<longrightarrow> syscall_statx machine = Inr (set_result machine (- EPERM))) \<and>
   calls (host (set_result machine (- EPERM))) = calls (host machine)"
  by (simp add: syscall_openat_def syscall_readlinkat_def syscall_ioctl_def syscall_statx_def
      Let_def calls_set_result)

theorem filter_rejection_eperm_witness:
  "map_sum id (\<lambda>m. (result m, calls (host m)))
     (syscall_openat (example_machine (Some example_fds) [3, 0x20000, 0])) = Inr (- 1, []) \<and>
   map_sum id (\<lambda>m. (result m, calls (host m)))
     (syscall_readlinkat (example_machine (Some example_fds) [3, 0x20000, 0x20200, 100])) = Inr (- 1, []) \<and>
   map_sum id (\<lambda>m. (result m, calls (host m)))
     (syscall_ioctl (example_machine (Some example_fds) [3, 0x5401, 0])) = Inr (- 1, []) \<and>
   map_sum id (\<lambda>m. (result m, calls (host m)))
     (syscall_statx (example_machine (Some example_fds) [3, 0x20000, 0, 0, 0x20200])) = Inr (- 1, [])"
proof -
  obtain p1 where p1: "guest_path (example_machine (Some example_fds) [3, 0x20000, 0]) 0x20000 = Inr p1"
    using example_path by blast
  obtain p2 where p2: "guest_path (example_machine (Some example_fds) [3, 0x20000, 0x20200, 100]) 0x20000 = Inr p2"
    using example_path by blast
  obtain p3 where p3: "guest_path (example_machine (Some example_fds) [3, 0x20000, 0, 0, 0x20200]) 0x20000 = Inr p3"
    using example_path by blast
  show ?thesis
    using p1 p2 p3
      filter_rejection_eperm [of "example_machine (Some example_fds) [3, 0x20000, 0]"
        example_fds "\<lambda>u path. False" p1 "\<lambda>u req. False"]
      filter_rejection_eperm [of "example_machine (Some example_fds) [3, 0x20000, 0x20200, 100]"
        example_fds "\<lambda>u path. False" p2 "\<lambda>u req. False"]
      filter_rejection_eperm [of "example_machine (Some example_fds) [3, 0x5401, 0]"
        example_fds "\<lambda>u path. False" p1 "\<lambda>u req. False"]
      filter_rejection_eperm [of "example_machine (Some example_fds) [3, 0x20000, 0, 0, 0x20200]"
        example_fds "\<lambda>u path. False" p3 "\<lambda>u req. False"]
    by (simp add: example_defs sysarg_def example_fds_def result_def set_result_def EPERM_def)
qed

end
